theory Spec2Isabelle
  imports Main "HOL-Library.Sublist"
begin

section \<open>Constructs and the construct tree\<close>

text \<open>
  The program (\<open>src/sst/overrides/nextsite.js\<close>) declares cloud resources by building a
  tree of constructs: \<open>new X(scope, id, props)\<close> registers a child named \<open>id\<close> under
  \<open>scope\<close>, and \<open>scope.node.tryFindChild(id)\<close> looks a child up by that name. The tree is
  modelled as an explicit store from the path of a scope to the list of its children, in
  creation order; a call of the construct library is modelled by its effect when it
  succeeds. Attributes of a resource that are only known at deployment (\<open>functionArn\<close>,
  \<open>queueUrl\<close>, ...) are references to the resource, written as strings.
\<close>

type_synonym path = "string list"

datatype code = Code_fromAsset "string list" | Code_fromInline string

datatype runtime = NODEJS_16_X | NODEJS_18_X

datatype architecture = X86_64 | ARM_64

datatype effect = ALLOW | DENY

record policy_statement =
  effect :: effect
  actions :: "string list"
  resources :: "string list"

text \<open>\<open>new PolicyStatement({...})\<close>: the effect is ALLOW unless the properties give one.\<close>

definition PolicyStatement :: "effect option \<Rightarrow> string list \<Rightarrow> string list \<Rightarrow> policy_statement" where
  "PolicyStatement e as rs =
     \<lparr> effect = (case e of None \<Rightarrow> ALLOW | Some x \<Rightarrow> x), actions = as, resources = rs \<rparr>"

record function_props =
  description :: "string option"
  handler :: string
  code :: code
  runtime :: runtime
  timeout :: nat
  memorySize :: "nat option"
  architecture :: "architecture option"
  logRetentionDays :: "nat option"
  currentVersionRemovalDestroy :: bool
  environment :: "string \<rightharpoonup> string"
  initialPolicy :: "policy_statement list"

text \<open>A function construct: its properties, and what is attached to the object after its
  creation (\<open>addEventSource\<close>, \<open>addFunctionUrl\<close>).\<close>

datatype auth_type = AWS_IAM | NONE

record sqs_event_source =
  queue :: string
  batchSize :: nat

record cdk_function = function_props +
  eventSources :: "sqs_event_source list"
  functionUrl :: "auth_type option"

definition newCdkFunction :: "function_props \<Rightarrow> cdk_function" where
  "newCdkFunction props = function_props.extend props
     \<lparr> eventSources = [], functionUrl = None \<rparr>"

datatype lazy_string = Lazy_uncachedString "unit \<Rightarrow> string"

fun resolve :: "lazy_string \<Rightarrow> string" where
  "resolve (Lazy_uncachedString produce) = produce ()"

record custom_resource =
  serviceToken :: "string option"
  resourceType :: string
  properties :: "(string \<times> string) list"
  logicalId :: lazy_string

record queue_props =
  fifo :: bool
  receiveMessageWaitTime :: nat

text \<open>
  Behaviors of the content-delivery distribution. A cache policy is either the one the
  caller supplies (\<open>cdk.serverCachePolicy\<close>) or the server cache policy of the site.
\<close>

datatype cache_policy = ServerCachePolicy "string list" | CallerCachePolicy string

datatype origin = HttpOrigin string | OtherOrigin string

datatype viewer_protocol_policy = REDIRECT_TO_HTTPS | HTTPS_ONLY | ALLOW_ALL_PROTOCOLS

datatype allowed_methods = ALLOW_ALL | ALLOW_GET_HEAD | ALLOW_GET_HEAD_OPTIONS

datatype cached_methods = CACHE_GET_HEAD | CACHE_GET_HEAD_OPTIONS

datatype event_type = ORIGIN_REQUEST | ORIGIN_RESPONSE | VIEWER_REQUEST | VIEWER_RESPONSE

record edge_lambda =
  includeBody :: bool
  eventType :: event_type
  functionVersion :: string

record behavior =
  viewerProtocolPolicy :: viewer_protocol_policy
  origin :: origin
  allowedMethods :: allowed_methods
  cachedMethods :: cached_methods
  compress :: bool
  cachePolicy :: cache_policy
  responseHeadersPolicy :: "string option"
  edgeLambdas :: "edge_lambda list"

text \<open>The properties handed to \<open>new Distribution(this, "CDN", {...})\<close>, whose scope is
  the site itself; \<open>otherProps\<close> are the caller's distribution properties that the program
  passes through untouched.\<close>

record distribution_props =
  customDomain :: "string option"
  defaultRootObject :: string
  otherProps :: "string \<rightharpoonup> string"
  defaultBehavior :: behavior
  additionalBehaviors :: "string \<rightharpoonup> behavior"

datatype construct =
    CdkFunction cdk_function
  | CustomResource custom_resource
  | Queue queue_props
  | Distribution distribution_props

type_synonym children = "(string \<times> construct) list"

type_synonym tree = "path \<Rightarrow> children"

definition getAtt :: "string \<Rightarrow> string \<Rightarrow> string" where
  "getAtt cid attr = ''Fn::GetAtt('' @ cid @ '','' @ attr @ '')''"

definition tryFindChild :: "children \<Rightarrow> string \<Rightarrow> construct option" where
  "tryFindChild cs cid = map_of cs cid"

definition addChild :: "tree \<Rightarrow> path \<Rightarrow> string \<Rightarrow> construct \<Rightarrow> tree" where
  "addChild t scp cid c = t(scp := t scp @ [(cid, c)])"

text \<open>\<open>provider.functionArn\<close>: defined when the child found is a function, \<open>undefined\<close>
  for any other construct registered under the provider's name.\<close>

fun functionArn :: "string \<Rightarrow> construct \<Rightarrow> string option" where
  "functionArn cid (CdkFunction _) = Some (getAtt cid ''Arn'')"
| "functionArn cid _ = None"

section \<open>CustomEdgeFunction\<close>

text \<open>
  The fields of \<open>this\<close> that \<open>createVersionInUsEast1\<close> reads: \<open>this.node.id\<close>,
  \<open>this.scope\<close>, \<open>Stack.of(this)\<close>, and the inherited method \<open>calculateHash\<close> of the base
  class \<open>EdgeFunction\<close> (a digest of the function's packaged code), which is a parameter
  here; \<open>'f\<close> is the type of the function resource that is hashed.
\<close>

record 'f edge_function =
  node_id :: string
  scope :: path
  stackOf :: path
  calculateHash :: "'f \<Rightarrow> string"

text \<open>
  Modelled from the spec: \<open>trimFromStart\<close> is inherited from the base class \<open>EdgeFunction\<close>,
  which is not part of the source file. The spec: the base identifier is trimmed "from the
  start of the string (not the end) to leave room for a fixed-width hash suffix", so at most
  the last \<open>n\<close> characters are kept.
\<close>

definition trimFromStart :: "string \<Rightarrow> nat \<Rightarrow> string" where
  "trimFromStart str n = drop (length str - n) str"

definition providerId :: string where
  "providerId = ''EdgeLambdaVersionProvider''"

definition resId :: "'f edge_function \<Rightarrow> string" where
  "resId this = node_id this @ ''EdgeLambdaVersion''"

definition providerProps :: "string \<Rightarrow> function_props" where
  "providerProps dirname =
     \<lparr> description = None,
       handler = ''edge-lambda-version.handler'',
       code = Code_fromAsset [dirname, ''./sst/support/edge-function''],
       runtime = NODEJS_16_X,
       timeout = 15 * 60,
       memorySize = Some 1024,
       architecture = None,
       logRetentionDays = None,
       currentVersionRemovalDestroy = False,
       environment = Map.empty,
       initialPolicy = [PolicyStatement (Some ALLOW) [''lambda:*''] [''*'']] \<rparr>"

record version_result =
  version :: custom_resource
  versionId :: string

text \<open>
  \<open>createVersionInUsEast1(fn, fnArn)\<close>, lines 26-72. \<open>allocateLogicalId\<close> is the logical
  identifier that the construct library allocates for a resource from its path
  (\<open>Stack.of(version).resolve(cfn.logicalId)\<close>), and \<open>dirname\<close> is \<open>__dirname\<close>. The
  function returns its result together with the updated tree.
\<close>

definition createVersionInUsEast1 ::
  "'f edge_function \<Rightarrow> (path \<Rightarrow> string) \<Rightarrow> string \<Rightarrow> 'f \<Rightarrow> string \<Rightarrow> tree
     \<Rightarrow> version_result \<times> tree" where
  "createVersionInUsEast1 this allocateLogicalId dirname fn fnArn t =
     (let stack = stackOf this;
          (provider, t1) =
            (case tryFindChild (t stack) providerId of
               Some p \<Rightarrow> (p, t)
             | None \<Rightarrow>
                 (let p = CdkFunction (newCdkFunction (providerProps dirname))
                  in (p, addChild t stack providerId p)));
          originalLogicalId = allocateLogicalId (scope this @ [resId this]);
          version =
            \<lparr> serviceToken = functionArn providerId provider,
              resourceType = ''Custom::SSTEdgeLambdaVersion'',
              properties = [(''FunctionArn'', fnArn)],
              logicalId = Lazy_uncachedString (\<lambda>_.
                let hash = calculateHash this fn;
                    logicalId = trimFromStart originalLogicalId (255 - 32)
                in logicalId @ hash) \<rparr>;
          t2 = addChild t1 (scope this) (resId this) (CustomResource version)
      in (\<lparr> version = version, versionId = getAtt (resId this) ''Version'' \<rparr>, t2))"

text \<open>The logical identifier under which a version resource is deployed: the lazy string
  is resolved when the template is synthesized.\<close>

definition versionLogicalId :: "version_result \<Rightarrow> string" where
  "versionLogicalId r = resolve (logicalId (version r))"

text \<open>
  Modelled from the spec: the primitive resource layer (the deployment service) is an
  external collaborator, not part of the source. The spec: resources are "keyed by logical
  identifier; create-vs-update is decided by identifier equality". Deploying a template,
  given the logical identifiers already deployed, creates exactly the resources whose
  identifier is not among them.
\<close>

definition createdOnDeploy :: "string list \<Rightarrow> string list \<Rightarrow> string list" where
  "createdOnDeploy deployed template = filter (\<lambda>i. i \<notin> set deployed) template"

text \<open>The data model reserves the last 32 characters of an identifier for the hash.\<close>

definition hashSuffix :: "string \<Rightarrow> string" where
  "hashSuffix ident = drop (length ident - 32) ident"

text \<open>A synthesis pass may call \<open>createVersionInUsEast1\<close> for several edge functions.\<close>

fun createVersions ::
  "(path \<Rightarrow> string) \<Rightarrow> string \<Rightarrow> ('f edge_function \<times> 'f \<times> string) list \<Rightarrow> tree \<Rightarrow> tree" where
  "createVersions allocateLogicalId dirname [] t = t"
| "createVersions allocateLogicalId dirname ((this, fn, fnArn) # calls) t =
     createVersions allocateLogicalId dirname calls
       (snd (createVersionInUsEast1 this allocateLogicalId dirname fn fnArn t))"

definition providerCount :: "tree \<Rightarrow> path \<Rightarrow> nat" where
  "providerCount t stack = length (filter (\<lambda>(cid, c). cid = providerId) (t stack))"

section \<open>NextSite\<close>

text \<open>
  The caller's distribution properties (\<open>props.cdk.distribution\<close>): every key is optional.
\<close>

record cf_distribution_props =
  cf_defaultRootObject :: "string option"
  cf_otherProps :: "string \<rightharpoonup> string"
  cf_defaultBehavior :: "behavior option"
  cf_additionalBehaviors :: "(string \<rightharpoonup> behavior) option"

text \<open>A caller's partial function properties (\<open>props.cdk.revalidation\<close>), spread over the
  defaults: each entry sets one property.\<close>

datatype function_prop =
    P_description string
  | P_handler string
  | P_code code
  | P_runtime runtime
  | P_timeout nat
  | P_memorySize nat

fun setProp :: "function_props \<Rightarrow> function_prop \<Rightarrow> function_props" where
  "setProp ps (P_description d) = ps\<lparr> description := Some d \<rparr>"
| "setProp ps (P_handler h) = ps\<lparr> handler := h \<rparr>"
| "setProp ps (P_code c) = ps\<lparr> code := c \<rparr>"
| "setProp ps (P_runtime r) = ps\<lparr> runtime := r \<rparr>"
| "setProp ps (P_timeout n) = ps\<lparr> timeout := n \<rparr>"
| "setProp ps (P_memorySize n) = ps\<lparr> memorySize := Some n \<rparr>"

definition spreadProps :: "function_props \<Rightarrow> function_prop list option \<Rightarrow> function_props" where
  "spreadProps ps over = (case over of None \<Rightarrow> ps | Some us \<Rightarrow> foldl setProp ps us)"

datatype memory_size = MemoryNumber nat | MemoryString string

datatype grant = GrantSendMessages string

text \<open>The render compute as \<open>createRevalidation\<close> uses it: its environment map and the
  permissions granted to its role.\<close>

record server_function =
  sf_environment :: "string \<rightharpoonup> string"
  sf_role :: "grant list"

record signing_function =
  sg_currentVersion :: string
  sg_permissions :: "policy_statement list"

datatype deferred_task =
    Task_createRevalidation
  | Task_updateImageFunctionCode "string list"

text \<open>
  The site \<open>this\<close>: the properties given by the caller (\<open>this.props\<close>), and the state of
  the object: the render compute of either topology, the children created under the site,
  the deferred tasks, and the attributes of the stack and of the bucket that the methods
  read.
\<close>

record site =
  props_path :: string
  props_customDomain :: "string option"
  props_cdk_revalidation :: "function_prop list option"
  props_cdk_distribution :: "cf_distribution_props option"
  props_cdk_serverCachePolicy :: "cache_policy option"
  props_cdk_responseHeadersPolicy :: "string option"
  props_regional_enableServerUrlIamAuth :: "bool option"
  props_imageOptimization_memorySize :: "memory_size option"
  serverLambdaForRegional :: "server_function option"
  serverLambdaForEdge :: "server_function option"
  serverUrlSigningFunction :: signing_function
  siteChildren :: children
  deferredTaskCallbacks :: "deferred_task list"
  region :: string
  bucketName :: string
  bucketArn :: string

text \<open>
  What the source takes from the base class \<open>SsrSite\<close> and from the imported utilities, as
  parameters: the server behavior of each topology (\<open>buildDefaultBehaviorForRegional\<close>,
  \<open>buildDefaultBehaviorForEdge\<close>, which may change the site) and the size conversion
  \<open>toCdkSize(...).toMebibytes()\<close>.
\<close>

record externals =
  buildDefaultBehaviorForRegional :: "site \<Rightarrow> behavior \<times> site"
  buildDefaultBehaviorForEdge :: "site \<Rightarrow> behavior \<times> site"
  toMebibytes :: "string \<Rightarrow> nat"

definition newChild :: "site \<Rightarrow> string \<Rightarrow> construct \<Rightarrow> site" where
  "newChild s cid c = s\<lparr> siteChildren := siteChildren s @ [(cid, c)] \<rparr>"

definition queueUrl :: "string \<Rightarrow> string" where
  "queueUrl cid = getAtt cid ''QueueUrl''"

definition addEnvironment :: "server_function \<Rightarrow> string \<Rightarrow> string \<Rightarrow> server_function" where
  "addEnvironment f k v = f\<lparr> sf_environment := (sf_environment f)(k \<mapsto> v) \<rparr>"

definition grantSendMessages :: "string \<Rightarrow> server_function \<Rightarrow> server_function" where
  "grantSendMessages q f = f\<lparr> sf_role := sf_role f @ [GrantSendMessages q] \<rparr>"

definition revalidationProps :: "site \<Rightarrow> function_props" where
  "revalidationProps s = spreadProps
     \<lparr> description = Some ''Next.js revalidator'',
       handler = ''index.handler'',
       code = Code_fromAsset [props_path s, ''.open-next'', ''revalidation-function''],
       runtime = NODEJS_18_X,
       timeout = 30,
       memorySize = None,
       architecture = None,
       logRetentionDays = None,
       currentVersionRemovalDestroy = False,
       environment = Map.empty,
       initialPolicy = [] \<rparr>
     (props_cdk_revalidation s)"

text \<open>
  \<open>createRevalidation()\<close>, lines 85-107. The source mutates the consumer and the server
  after creating them; a child is stored in the tree as the object is when the method
  returns. \<open>this.serverLambdaForRegional || this.serverLambdaForEdge\<close> picks the regional
  function when both are set.
\<close>

definition createRevalidation :: "site \<Rightarrow> site" where
  "createRevalidation s =
     (if serverLambdaForRegional s = None \<and> serverLambdaForEdge s = None then s
      else
        let queue = Queue \<lparr> fifo = True, receiveMessageWaitTime = 20 \<rparr>;
            s1 = newChild s ''RevalidationQueue'' queue;
            consumer = (newCdkFunction (revalidationProps s))
              \<lparr> eventSources := [\<lparr> queue = ''RevalidationQueue'', batchSize = 5 \<rparr>] \<rparr>;
            s2 = newChild s1 ''RevalidationFunction'' (CdkFunction consumer);
            wire = (\<lambda>server.
              grantSendMessages ''RevalidationQueue''
                (addEnvironment
                  (addEnvironment server ''REVALIDATION_QUEUE_URL'' (queueUrl ''RevalidationQueue''))
                  ''REVALIDATION_QUEUE_REGION'' (region s)))
        in (case serverLambdaForRegional s2 of
              Some server \<Rightarrow> s2\<lparr> serverLambdaForRegional := Some (wire server) \<rparr>
            | None \<Rightarrow>
                (case serverLambdaForEdge s2 of
                   Some server \<Rightarrow> s2\<lparr> serverLambdaForEdge := Some (wire server) \<rparr>
                 | None \<Rightarrow> s2)))"

text \<open>The render compute of a site: \<open>serverLambdaForRegional || serverLambdaForEdge\<close>.\<close>

definition renderCompute :: "site \<Rightarrow> server_function option" where
  "renderCompute s =
     (case serverLambdaForRegional s of Some f \<Rightarrow> Some f | None \<Rightarrow> serverLambdaForEdge s)"

text \<open>\<open>this.bucket.arnForObjects(keyPattern)\<close>.\<close>

definition arnForObjects :: "site \<Rightarrow> string \<Rightarrow> string" where
  "arnForObjects s keyPattern = bucketArn s @ ''/'' @ keyPattern"

text \<open>
  \<open>createImageOptimizationFunction()\<close>, lines 158-200. A memory size that is \<open>0\<close> or the
  empty string is falsy in the source and gives the default.
\<close>

definition imageMemorySize :: "externals \<Rightarrow> site \<Rightarrow> nat" where
  "imageMemorySize ext s =
     (case props_imageOptimization_memorySize s of
        None \<Rightarrow> 1536
      | Some (MemoryNumber n) \<Rightarrow> (if n = 0 then 1536 else n)
      | Some (MemoryString m) \<Rightarrow> (if m = [] then 1536 else toMebibytes ext m))"

definition imageFunctionProps :: "externals \<Rightarrow> site \<Rightarrow> function_props" where
  "imageFunctionProps ext s =
     \<lparr> description = Some ''Next.js image optimizer'',
       handler = ''index.handler'',
       code = Code_fromInline ''export function handler() {}'',
       runtime = NODEJS_18_X,
       timeout = 25,
       memorySize = Some (imageMemorySize ext s),
       architecture = Some ARM_64,
       logRetentionDays = Some 3,
       currentVersionRemovalDestroy = True,
       environment = [''BUCKET_NAME'' \<mapsto> bucketName s, ''BUCKET_KEY_PREFIX'' \<mapsto> ''_assets''],
       initialPolicy = [PolicyStatement None [''s3:GetObject''] [arnForObjects s ''*'']] \<rparr>"

definition createImageOptimizationFunction :: "externals \<Rightarrow> site \<Rightarrow> cdk_function \<times> site" where
  "createImageOptimizationFunction ext s =
     (let fn = newCdkFunction (imageFunctionProps ext s);
          s1 = newChild s ''ImageFunction'' (CdkFunction fn);
          s2 = s1\<lparr> deferredTaskCallbacks := deferredTaskCallbacks s1 @
                 [Task_updateImageFunctionCode [props_path s, ''.open-next/image-optimization-function'']] \<rparr>
      in (fn, s2))"

text \<open>\<open>imageFn.addFunctionUrl({authType})\<close> changes the function object that is registered
  under the site.\<close>

fun setFunctionUrl :: "auth_type \<Rightarrow> construct \<Rightarrow> construct" where
  "setFunctionUrl a (CdkFunction f) = CdkFunction (f\<lparr> functionUrl := Some a \<rparr>)"
| "setFunctionUrl a c = c"

definition addFunctionUrl :: "string \<Rightarrow> auth_type \<Rightarrow> site \<Rightarrow> site" where
  "addFunctionUrl cid a s =
     s\<lparr> siteChildren :=
         map (\<lambda>(i, c). if i = cid then (i, setFunctionUrl a c) else (i, c)) (siteChildren s) \<rparr>"

text \<open>
  Modelled from the spec: \<open>super.useServerBehaviorCachePolicy(allowedHeaders)\<close> belongs to
  the base class \<open>SsrSite\<close>, which is not part of the source file. The spec: the cache policy
  "forwards a fixed allow-list of request attributes ... into the cache key computation".
\<close>

definition super_useServerBehaviorCachePolicy :: "string list \<Rightarrow> cache_policy" where
  "super_useServerBehaviorCachePolicy allowedHeaders = ServerCachePolicy allowedHeaders"

text \<open>\<open>useServerBehaviorCachePolicy()\<close>, lines 300-308.\<close>

definition useServerBehaviorCachePolicy :: cache_policy where
  "useServerBehaviorCachePolicy = super_useServerBehaviorCachePolicy
     [''accept'', ''rsc'', ''next-router-prefetch'', ''next-router-state-tree'', ''next-url'']"

text \<open>The request headers that a server cache policy puts into the cache key.\<close>

fun cacheKeyHeaders :: "cache_policy \<Rightarrow> string list" where
  "cacheKeyHeaders (ServerCachePolicy hs) = hs"
| "cacheKeyHeaders (CallerCachePolicy _) = []"

definition parseDomainName :: "string \<Rightarrow> string" where
  "parseDomainName u = ''Fn::ParseDomainName('' @ u @ '')''"

definition functionUrl_url :: "string \<Rightarrow> string" where
  "functionUrl_url cid = getAtt cid ''FunctionUrl''"

text \<open>
  \<open>buildImageBehavior()\<close>, lines 309-344. With signed invocation, the signing function of
  the site (\<open>useServerUrlSigningFunction()\<close> of the base class) is given the permission to
  invoke the image function's URL.
\<close>

definition buildImageBehavior :: "externals \<Rightarrow> site \<Rightarrow> behavior \<times> site" where
  "buildImageBehavior ext s =
     (let (imageFn, s1) = createImageOptimizationFunction ext s;
          iamAuth = (props_regional_enableServerUrlIamAuth s = Some True);
          s2 = addFunctionUrl ''ImageFunction'' (if iamAuth then AWS_IAM else NONE) s1;
          policy = (case props_cdk_serverCachePolicy s of
                      Some p \<Rightarrow> p | None \<Rightarrow> useServerBehaviorCachePolicy);
          (lambdas, s3) =
            (if iamAuth then
               (let fn = serverUrlSigningFunction s2;
                    fn1 = fn\<lparr> sg_permissions := sg_permissions fn @
                            [PolicyStatement None [''lambda:InvokeFunctionUrl'']
                               [getAtt ''ImageFunction'' ''Arn'']] \<rparr>
                in ([\<lparr> includeBody = True, eventType = ORIGIN_REQUEST,
                        functionVersion = sg_currentVersion fn1 \<rparr>],
                    s2\<lparr> serverUrlSigningFunction := fn1 \<rparr>))
             else ([], s2))
      in (\<lparr> viewerProtocolPolicy = REDIRECT_TO_HTTPS,
            origin = HttpOrigin (parseDomainName (functionUrl_url ''ImageFunction'')),
            allowedMethods = ALLOW_ALL,
            cachedMethods = CACHE_GET_HEAD_OPTIONS,
            compress = True,
            cachePolicy = policy,
            responseHeadersPolicy = props_cdk_responseHeadersPolicy s,
            edgeLambdas = lambdas \<rparr>, s3))"

text \<open>\<open>cdk?.distribution || {}\<close>.\<close>

definition cfDistributionProps :: "site \<Rightarrow> cf_distribution_props" where
  "cfDistributionProps s =
     (case props_cdk_distribution s of
        Some d \<Rightarrow> d
      | None \<Rightarrow> \<lparr> cf_defaultRootObject = None, cf_otherProps = Map.empty,
                  cf_defaultBehavior = None, cf_additionalBehaviors = None \<rparr>)"

text \<open>\<open>...(cfDistributionProps.additionalBehaviors || {})\<close>.\<close>

definition callerBehaviors :: "site \<Rightarrow> (string \<rightharpoonup> behavior)" where
  "callerBehaviors s =
     (case cf_additionalBehaviors (cfDistributionProps s) of Some m \<Rightarrow> m | None \<Rightarrow> Map.empty)"

text \<open>
  \<open>createCloudFrontDistributionForRegional()\<close>, lines 201-274: the distribution's
  properties are the defaults, then the caller's properties, then the two keys that the
  caller cannot overwrite. In an object literal a later key replaces an earlier one, which
  is \<open>++\<close> on maps.
\<close>

definition createCloudFrontDistributionForRegional ::
  "externals \<Rightarrow> site \<Rightarrow> distribution_props \<times> site" where
  "createCloudFrontDistributionForRegional ext s =
     (let cf = cfDistributionProps s;
          (serverBehavior, s1) = buildDefaultBehaviorForRegional ext s;
          (imageBehavior, s2) = buildImageBehavior ext s1;
          d = \<lparr> customDomain = props_customDomain s,
                defaultRootObject = (case cf_defaultRootObject cf of None \<Rightarrow> [] | Some r \<Rightarrow> r),
                otherProps = cf_otherProps cf,
                defaultBehavior = serverBehavior,
                additionalBehaviors =
                  [''api/*'' \<mapsto> serverBehavior,
                   ''_next/data/*'' \<mapsto> serverBehavior,
                   ''_next/image*'' \<mapsto> imageBehavior] ++ callerBehaviors s \<rparr>
      in (d, newChild s2 ''CDN'' (Distribution d)))"

text \<open>\<open>createCloudFrontDistributionForEdge()\<close>, lines 275-299: the image behavior is
  commented out in the source.\<close>

definition createCloudFrontDistributionForEdge ::
  "externals \<Rightarrow> site \<Rightarrow> distribution_props \<times> site" where
  "createCloudFrontDistributionForEdge ext s =
     (let cf = cfDistributionProps s;
          (serverBehavior, s1) = buildDefaultBehaviorForEdge ext s;
          d = \<lparr> customDomain = props_customDomain s,
                defaultRootObject = (case cf_defaultRootObject cf of None \<Rightarrow> [] | Some r \<Rightarrow> r),
                otherProps = cf_otherProps cf,
                defaultBehavior = serverBehavior,
                additionalBehaviors =
                  [''api/*'' \<mapsto> serverBehavior,
                   ''_next/data/*'' \<mapsto> serverBehavior] ++ callerBehaviors s \<rparr>
      in (d, newChild s1 ''CDN'' (Distribution d)))"

text \<open>The two topologies of a site, and the route table synthesized for each.\<close>

datatype topology = Regional | EdgeReplicated

definition routeTable :: "externals \<Rightarrow> topology \<Rightarrow> site \<Rightarrow> distribution_props" where
  "routeTable ext topo s =
     (case topo of
        Regional \<Rightarrow> fst (createCloudFrontDistributionForRegional ext s)
      | EdgeReplicated \<Rightarrow> fst (createCloudFrontDistributionForEdge ext s))"

definition serverBehaviorOf :: "externals \<Rightarrow> topology \<Rightarrow> site \<Rightarrow> behavior" where
  "serverBehaviorOf ext topo s =
     (case topo of
        Regional \<Rightarrow> fst (buildDefaultBehaviorForRegional ext s)
      | EdgeReplicated \<Rightarrow> fst (buildDefaultBehaviorForEdge ext s))"

text \<open>
  Modelled from the spec: the builders of the server behavior,
  \<open>buildDefaultBehaviorForRegional\<close> and \<open>buildDefaultBehaviorForEdge\<close>, belong to the base
  class \<open>SsrSite\<close>, which is not part of the source file. The spec: the server behavior is
  "appropriate to the chosen topology", and the caller's overrides "never override the
  default Behavior's origin/handler assignment - only its non-essential fields (headers
  policy, cache policy objects) may be overridden". So the behavior of a topology is
  computed from the site without the caller's distribution properties (\<open>base\<close>, a
  parameter), and of the caller's default behavior only the cache policy and the headers
  policy are taken.
\<close>

definition withoutDistributionProps :: "site \<Rightarrow> site" where
  "withoutDistributionProps s = s\<lparr> props_cdk_distribution := None \<rparr>"

definition overrideNonEssential :: "behavior option \<Rightarrow> behavior \<Rightarrow> behavior" where
  "overrideNonEssential over b =
     (case over of
        None \<Rightarrow> b
      | Some c \<Rightarrow> b\<lparr> cachePolicy := cachePolicy c,
                      responseHeadersPolicy := responseHeadersPolicy c \<rparr>)"

definition specExternals :: "(topology \<Rightarrow> site \<Rightarrow> behavior) \<Rightarrow> (string \<Rightarrow> nat) \<Rightarrow> externals" where
  "specExternals base mebibytes =
     \<lparr> buildDefaultBehaviorForRegional = (\<lambda>s.
         (overrideNonEssential (cf_defaultBehavior (cfDistributionProps s))
            (base Regional (withoutDistributionProps s)), s)),
       buildDefaultBehaviorForEdge = (\<lambda>s.
         (overrideNonEssential (cf_defaultBehavior (cfDistributionProps s))
            (base EdgeReplicated (withoutDistributionProps s)), s)),
       toMebibytes = mebibytes \<rparr>"

text \<open>The same site with other additional behaviors from the caller, or with none.\<close>

definition withAdditionalBehaviors :: "(string \<rightharpoonup> behavior) option \<Rightarrow> site \<Rightarrow> site" where
  "withAdditionalBehaviors m s =
     s\<lparr> props_cdk_distribution := Some ((cfDistributionProps s)\<lparr> cf_additionalBehaviors := m \<rparr>) \<rparr>"

section \<open>The life cycle of a site\<close>

text \<open>
  The constructor, lines 76-84. \<open>super(scope, id, {buildCommand: ..., ...props})\<close> is the
  constructor of the base class, a parameter here: the site that it builds for a build
  command. The constructor then registers \<open>createRevalidation\<close> as a deferred task.
\<close>

definition buildCommandOf :: "string option \<Rightarrow> string" where
  "buildCommandOf buildCommand =
     (case buildCommand of None \<Rightarrow> ''npx --yes open-next@2.1.5 build'' | Some c \<Rightarrow> c)"

definition NextSite_constructor :: "(string \<Rightarrow> site) \<Rightarrow> string option \<Rightarrow> site" where
  "NextSite_constructor super buildCommand =
     (let this = super (buildCommandOf buildCommand)
      in this\<lparr> deferredTaskCallbacks := deferredTaskCallbacks this @ [Task_createRevalidation] \<rparr>)"

text \<open>The deferred task of \<open>createImageOptimizationFunction\<close>, lines 188-198: the code of
  the image function becomes the built asset.\<close>

fun setFunctionCode :: "code \<Rightarrow> construct \<Rightarrow> construct" where
  "setFunctionCode c (CdkFunction f) = CdkFunction (f\<lparr> code := c \<rparr>)"
| "setFunctionCode c x = x"

definition updateImageFunctionCode :: "string list \<Rightarrow> site \<Rightarrow> site" where
  "updateImageFunctionCode segments s =
     s\<lparr> siteChildren :=
         map (\<lambda>(i, c). if i = ''ImageFunction''
                        then (i, setFunctionCode (Code_fromAsset segments) c) else (i, c))
           (siteChildren s) \<rparr>"

fun runTask :: "deferred_task \<Rightarrow> site \<Rightarrow> site" where
  "runTask Task_createRevalidation s = createRevalidation s"
| "runTask (Task_updateImageFunctionCode segments) s = updateImageFunctionCode segments s"

text \<open>
  Modelled from the spec: the run of the deferred tasks and the finalization belong to the
  base class and to the framework, which are not part of the source file. The spec: the
  callbacks collected during the declare phase are "executed once, in registration order,
  after build artifacts are available", and synthesis then "emits a single immutable
  SiteDescriptor combining the RouteTable, the revalidation pipeline (if any), and the
  compute units". The descriptor holds the render compute and the constructs of the site
  as they are at that moment.
\<close>

definition runDeferredTasks :: "site \<Rightarrow> site" where
  "runDeferredTasks s = foldl (\<lambda>s' task. runTask task s') s (deferredTaskCallbacks s)"

record site_descriptor =
  sd_renderCompute :: "server_function option"
  sd_constructs :: children

definition finalize :: "site \<Rightarrow> site_descriptor" where
  "finalize s = \<lparr> sd_renderCompute = renderCompute s, sd_constructs = siteChildren s \<rparr>"

definition synthesize :: "(string \<Rightarrow> site) \<Rightarrow> string option \<Rightarrow> site_descriptor" where
  "synthesize super buildCommand =
     finalize (runDeferredTasks (NextSite_constructor super buildCommand))"

section \<open>Access control of the storage location\<close>

text \<open>
  How the access-control service of the platform reads a policy: a pattern matches a name
  with \<open>*\<close> standing for any run of characters and \<open>?\<close> for any single one; a request is
  allowed when an ALLOW statement matches its action and resource and no DENY statement
  does.
\<close>

fun glob :: "string \<Rightarrow> string \<Rightarrow> bool" where
  "glob [] [] = True"
| "glob [] (c # s) = False"
| "glob (p # ps) [] = (p = CHR ''*'' \<and> glob ps [])"
| "glob (p # ps) (c # s) =
     (if p = CHR ''*'' then glob ps (c # s) \<or> glob (p # ps) s
      else (p = CHR ''?'' \<or> p = c) \<and> glob ps s)"

definition matches :: "policy_statement \<Rightarrow> string \<Rightarrow> string \<Rightarrow> bool" where
  "matches st action resource =
     (list_ex (\<lambda>a. glob a action) (actions st) \<and> list_ex (\<lambda>r. glob r resource) (resources st))"

definition allows :: "policy_statement list \<Rightarrow> string \<Rightarrow> string \<Rightarrow> bool" where
  "allows policy action resource =
     (list_ex (\<lambda>st. effect st = ALLOW \<and> matches st action resource) policy
      \<and> \<not> list_ex (\<lambda>st. effect st = DENY \<and> matches st action resource) policy)"

text \<open>The name of the object stored under a key of the site's bucket.\<close>

definition objectArn :: "site \<Rightarrow> string \<Rightarrow> string" where
  "objectArn s key = bucketArn s @ ''/'' @ key"

section \<open>Example inputs\<close>

text \<open>Concrete inputs on which the theorems below are instantiated: a digest of 32
  characters, an edge function under a site of a stack, two allocations of logical
  identifiers (a short one and one longer than the limit), and sites of both topologies.\<close>

definition exampleHash :: "string \<Rightarrow> string" where
  "exampleHash payload = take 32 (payload @ replicate 32 CHR ''0'')"

definition exampleEdgeFunction :: "string edge_function" where
  "exampleEdgeFunction =
     \<lparr> node_id = ''ServerFunction'', scope = [''Stack'', ''Site''], stackOf = [''Stack''],
       calculateHash = exampleHash \<rparr>"

definition otherEdgeFunction :: "string edge_function" where
  "otherEdgeFunction =
     \<lparr> node_id = ''Other'', scope = [''Stack''], stackOf = [''Stack''],
       calculateHash = exampleHash \<rparr>"

definition exampleAllocate :: "path \<Rightarrow> string" where
  "exampleAllocate p = concat p"

definition longAllocate :: "path \<Rightarrow> string" where
  "longAllocate p = replicate 300 CHR ''x'' @ concat p"

definition emptyTree :: tree where
  "emptyTree = (\<lambda>scp. [])"

definition exampleServerBehavior :: behavior where
  "exampleServerBehavior =
     \<lparr> viewerProtocolPolicy = REDIRECT_TO_HTTPS,
       origin = OtherOrigin ''server'',
       allowedMethods = ALLOW_ALL,
       cachedMethods = CACHE_GET_HEAD_OPTIONS,
       compress = True,
       cachePolicy = useServerBehaviorCachePolicy,
       responseHeadersPolicy = None,
       edgeLambdas = [] \<rparr>"

definition exampleCallerBehavior :: behavior where
  "exampleCallerBehavior = exampleServerBehavior\<lparr> origin := OtherOrigin ''caller'' \<rparr>"

definition exampleExternals :: externals where
  "exampleExternals =
     \<lparr> buildDefaultBehaviorForRegional = (\<lambda>s. (exampleServerBehavior, s)),
       buildDefaultBehaviorForEdge = (\<lambda>s. (exampleServerBehavior, s)),
       toMebibytes = (\<lambda>m. 1024) \<rparr>"

definition exampleServer :: server_function where
  "exampleServer = \<lparr> sf_environment = [''CACHE_BUCKET_KEY_PREFIX'' \<mapsto> ''_cache''], sf_role = [] \<rparr>"

definition exampleSite :: site where
  "exampleSite =
     \<lparr> props_path = ''web'',
       props_customDomain = None,
       props_cdk_revalidation = None,
       props_cdk_distribution = None,
       props_cdk_serverCachePolicy = None,
       props_cdk_responseHeadersPolicy = None,
       props_regional_enableServerUrlIamAuth = None,
       props_imageOptimization_memorySize = None,
       serverLambdaForRegional = Some exampleServer,
       serverLambdaForEdge = None,
       serverUrlSigningFunction = \<lparr> sg_currentVersion = ''signer:1'', sg_permissions = [] \<rparr>,
       siteChildren = [],
       deferredTaskCallbacks = [],
       region = ''us-east-1'',
       bucketName = ''bucket'',
       bucketArn = ''arn:aws:s3:::bucket'' \<rparr>"

definition exampleSiteNoCompute :: site where
  "exampleSiteNoCompute = exampleSite\<lparr> serverLambdaForRegional := None \<rparr>"

definition exampleOverrides :: "string \<Rightarrow> cf_distribution_props" where
  "exampleOverrides k =
     \<lparr> cf_defaultRootObject = None, cf_otherProps = Map.empty,
       cf_defaultBehavior = Some exampleCallerBehavior,
       cf_additionalBehaviors = Some [k \<mapsto> exampleCallerBehavior] \<rparr>"

definition exampleSiteOverriding :: "string \<Rightarrow> site" where
  "exampleSiteOverriding k = exampleSite\<lparr> props_cdk_distribution := Some (exampleOverrides k) \<rparr>"

definition exampleBase :: "topology \<Rightarrow> site \<Rightarrow> behavior" where
  "exampleBase topo s = exampleServerBehavior"

definition exampleSuper :: "string \<Rightarrow> site" where
  "exampleSuper buildCommand =
     snd (createCloudFrontDistributionForRegional exampleExternals exampleSite)"

section \<open>Version identifiers\<close>

lemma versionLogicalId_createVersion:
  "versionLogicalId (fst (createVersionInUsEast1 this alloc dirname fn fnArn t)) =
     trimFromStart (alloc (scope this @ [resId this])) (255 - 32) @ calculateHash this fn"
  by (simp add: createVersionInUsEast1_def versionLogicalId_def Let_def
      split: option.split prod.split)

lemma versionId_createVersion:
  "versionId (fst (createVersionInUsEast1 this alloc dirname fn fnArn t)) =
     getAtt (resId this) ''Version''"
  by (simp add: createVersionInUsEast1_def Let_def split: option.split prod.split)

lemma length_trimFromStart: "length (trimFromStart s n) = min (length s) n"
  by (simp add: trimFromStart_def)

lemma hashSuffix_append: "length h = 32 \<Longrightarrow> hashSuffix (b @ h) = h"
  by (simp add: hashSuffix_def)

lemma resId_neq_providerId: "resId this \<noteq> providerId"
proof
  assume "resId this = providerId"
  then have "last (resId this) = last providerId" by simp
  then show False by (simp add: resId_def providerId_def)
qed

lemma no_provider_iff:
  "filter (\<lambda>(cid, c). cid = providerId) cs = [] \<longleftrightarrow> tryFindChild cs providerId = None"
  by (induction cs) (auto simp: tryFindChild_def)

lemma providerCount_create:
  "providerCount (snd (createVersionInUsEast1 this alloc dirname fn fnArn t)) p =
     (if p = stackOf this \<and> providerCount t p = 0 then 1 else providerCount t p)"
  using resId_neq_providerId[of this]
  by (auto simp: createVersionInUsEast1_def Let_def providerCount_def addChild_def
      no_provider_iff split: option.split prod.split)

lemma tryFindChild_append:
  "tryFindChild cs k = Some c \<Longrightarrow> tryFindChild (cs @ ds) k = Some c"
  by (simp add: tryFindChild_def map_add_Some_iff)

lemma tryFindChild_create:
  "tryFindChild (t p) providerId = Some c \<Longrightarrow>
   tryFindChild (snd (createVersionInUsEast1 this alloc dirname fn fnArn t) p) providerId = Some c"
  by (auto simp: createVersionInUsEast1_def Let_def addChild_def tryFindChild_append
      split: option.split prod.split)

lemma providerCount_createVersions:
  "providerCount (createVersions alloc dirname calls t) p =
     (if providerCount t p = 0 \<and> p \<in> (\<lambda>(this, fn, fnArn). stackOf this) ` set calls
      then 1 else providerCount t p)"
proof (induction calls arbitrary: t)
  case Nil
  show ?case by simp
next
  case (Cons call calls)
  obtain this fn fnArn where call: "call = (this, fn, fnArn)"
    by (cases call) auto
  show ?case
    by (simp add: call Cons.IH providerCount_create)
qed

lemma tryFindChild_createVersions:
  "tryFindChild (t p) providerId = Some c \<Longrightarrow>
   tryFindChild (createVersions alloc dirname calls t p) providerId = Some c"
proof (induction calls arbitrary: t)
  case Nil
  then show ?case by simp
next
  case (Cons call calls)
  obtain this fn fnArn where call: "call = (this, fn, fnArn)"
    by (cases call) auto
  show ?case
    by (simp add: call Cons.IH Cons.prems tryFindChild_create)
qed

lemma exampleHash_length: "length (exampleHash p) = 32"
  by (simp add: exampleHash_def)

text \<open>
  C1 (idempotence of versioning). Two calls of \<open>createVersionInUsEast1\<close> for the same edge
  function, in any two construct trees and with any function addresses, whose payloads have
  the same content hash, give version records with the same logical identifier and the same
  version reference; deploying the second record where the first is deployed creates no
  resource.
\<close>

theorem createVersion_idempotent:
  assumes "calculateHash this fn2 = calculateHash this fn1"
  shows "let r1 = fst (createVersionInUsEast1 this alloc dirname1 fn1 fnArn1 t1);
             r2 = fst (createVersionInUsEast1 this alloc dirname2 fn2 fnArn2 t2)
         in versionLogicalId r2 = versionLogicalId r1
          \<and> versionId r2 = versionId r1
          \<and> createdOnDeploy [versionLogicalId r1] [versionLogicalId r2] = []"
  using assms
  by (simp add: Let_def versionLogicalId_createVersion versionId_createVersion
      createdOnDeploy_def)

theorem createVersion_idempotent_witness:
  "calculateHash exampleEdgeFunction ''payload'' = calculateHash exampleEdgeFunction ''payload''
   \<and> versionLogicalId (fst (createVersionInUsEast1 exampleEdgeFunction exampleAllocate ''dir''
         ''payload'' ''arn:2''
         (snd (createVersionInUsEast1 otherEdgeFunction exampleAllocate ''dir''
            ''other payload'' ''arn:3'' emptyTree))))
     = versionLogicalId (fst (createVersionInUsEast1 exampleEdgeFunction exampleAllocate ''dir''
         ''payload'' ''arn:1'' emptyTree))
   \<and> createdOnDeploy
        [versionLogicalId (fst (createVersionInUsEast1 exampleEdgeFunction exampleAllocate ''dir''
           ''payload'' ''arn:1'' emptyTree))]
        [versionLogicalId (fst (createVersionInUsEast1 exampleEdgeFunction exampleAllocate ''dir''
           ''payload'' ''arn:2''
           (snd (createVersionInUsEast1 otherEdgeFunction exampleAllocate ''dir''
              ''other payload'' ''arn:3'' emptyTree))))] = []"
  using createVersion_idempotent [of exampleEdgeFunction "''payload''" "''payload''"
      exampleAllocate "''dir''" "''arn:1''" emptyTree "''dir''" "''arn:2''"
      "snd (createVersionInUsEast1 otherEdgeFunction exampleAllocate ''dir''
            ''other payload'' ''arn:3'' emptyTree)"]
  by (simp add: Let_def createdOnDeploy_def)

text \<open>
  C2 (identifier length invariant). With a content hash of 32 characters, the identifier
  that \<open>createVersionInUsEast1\<close> gives the version resource is the last
  \<open>min L (255 - 32)\<close> characters of the base identifier, of length \<open>L\<close>, followed by the
  hash; its length is \<open>min L (255 - 32) + 32\<close>, which is at most 255.
\<close>

theorem identifier_length:
  assumes "length (calculateHash this fn) = 32"
  shows "let base = alloc (scope this @ [resId this]);
             ident = versionLogicalId (fst (createVersionInUsEast1 this alloc dirname fn fnArn t))
         in ident = drop (length base - (255 - 32)) base @ calculateHash this fn
          \<and> length ident = min (length base) (255 - 32) + 32
          \<and> length ident \<le> 255"
proof -
  define base where "base = alloc (scope this @ [resId this])"
  define ident where
    "ident = versionLogicalId (fst (createVersionInUsEast1 this alloc dirname fn fnArn t))"
  have eq: "ident = trimFromStart base (255 - 32) @ calculateHash this fn"
    by (simp add: ident_def base_def versionLogicalId_createVersion)
  have len: "length ident = min (length base) (255 - 32) + 32"
    by (simp only: eq length_append length_trimFromStart assms)
  have "length ident \<le> 255"
    using len by simp
  with eq len show ?thesis
    by (simp add: Let_def trimFromStart_def flip: base_def ident_def)
qed

theorem identifier_length_witness:
  "length (calculateHash exampleEdgeFunction ''payload'') = 32
   \<and> length (versionLogicalId (fst (createVersionInUsEast1 exampleEdgeFunction longAllocate
        ''dir'' ''payload'' ''arn:1'' emptyTree))) = 255
   \<and> length (versionLogicalId (fst (createVersionInUsEast1 exampleEdgeFunction exampleAllocate
        ''dir'' ''payload'' ''arn:1'' emptyTree))) = 72"
  using identifier_length [of exampleEdgeFunction "''payload''" longAllocate "''dir''"
      "''arn:1''" emptyTree]
    identifier_length [of exampleEdgeFunction "''payload''" exampleAllocate "''dir''"
      "''arn:1''" emptyTree]
  by (simp add: Let_def exampleEdgeFunction_def exampleHash_length longAllocate_def
      exampleAllocate_def resId_def)

text \<open>
  C3 (content-determined identity). For one edge function and base identifier, equal
  payloads give equal version identifiers, whatever the tree and the function address;
  and where the content hash is injective on two different payloads, the identifiers
  differ, and (the hashes having 32 characters) so do their hash suffixes.
\<close>

theorem content_determined_identity:
  assumes "inj_on (calculateHash this) {fn1, fn2}"
  shows "let id1 = versionLogicalId (fst (createVersionInUsEast1 this alloc dirname1 fn1 fnArn1 t1));
             id2 = versionLogicalId (fst (createVersionInUsEast1 this alloc dirname2 fn2 fnArn2 t2))
         in (fn1 = fn2 \<longrightarrow> id1 = id2)
          \<and> (fn1 \<noteq> fn2 \<longrightarrow> id1 \<noteq> id2
               \<and> (length (calculateHash this fn1) = 32 \<and> length (calculateHash this fn2) = 32
                    \<longrightarrow> hashSuffix id1 \<noteq> hashSuffix id2))"
proof -
  have "fn1 \<noteq> fn2 \<Longrightarrow> calculateHash this fn1 \<noteq> calculateHash this fn2"
    using assms by (auto simp: inj_on_def)
  then show ?thesis
    by (auto simp: Let_def versionLogicalId_createVersion hashSuffix_append)
qed

theorem content_determined_identity_witness:
  "inj_on (calculateHash exampleEdgeFunction) {''payload A'', ''payload B''}
   \<and> hashSuffix (versionLogicalId (fst (createVersionInUsEast1 exampleEdgeFunction
         exampleAllocate ''dir'' ''payload A'' ''arn:1'' emptyTree)))
     \<noteq> hashSuffix (versionLogicalId (fst (createVersionInUsEast1 exampleEdgeFunction
         exampleAllocate ''dir'' ''payload B'' ''arn:1'' emptyTree)))"
proof -
  have inj: "inj_on (calculateHash exampleEdgeFunction) {''payload A'', ''payload B''}"
    by (simp add: exampleEdgeFunction_def exampleHash_def)
  have len: "length (calculateHash exampleEdgeFunction p) = 32" for p
    by (simp add: exampleEdgeFunction_def exampleHash_length)
  show ?thesis
    using inj len content_determined_identity [OF inj, of exampleAllocate "''dir''" "''arn:1''"
        emptyTree "''dir''" "''arn:1''" emptyTree]
    by (simp add: Let_def)
qed

text \<open>
  C10 (provider uniqueness). Whatever calls of \<open>createVersionInUsEast1\<close> a synthesis makes,
  a stack that had at most one child named \<open>EdgeLambdaVersionProvider\<close> still has at most
  one; a provider that exists is the one found afterwards, and no other is created; a stack
  without a provider in which a call is made has exactly one afterwards.
\<close>

theorem provider_unique:
  "let t' = createVersions alloc dirname calls t
   in (providerCount t p \<le> 1 \<longrightarrow> providerCount t' p \<le> 1)
    \<and> (\<forall>c. tryFindChild (t p) providerId = Some c \<longrightarrow>
            tryFindChild (t' p) providerId = Some c \<and> providerCount t' p = providerCount t p)
    \<and> (providerCount t p = 0 \<and> (\<exists>call \<in> set calls. stackOf (fst call) = p) \<longrightarrow>
            providerCount t' p = 1)"
proof -
  define t' where "t' = createVersions alloc dirname calls t"
  have count: "providerCount t' p =
      (if providerCount t p = 0 \<and> p \<in> (\<lambda>(this, fn, fnArn). stackOf this) ` set calls
       then 1 else providerCount t p)"
    by (simp add: t'_def providerCount_createVersions)
  have bound: "providerCount t p \<le> 1 \<longrightarrow> providerCount t' p \<le> 1"
    by (simp add: count)
  have reuse: "tryFindChild (t' p) providerId = Some c \<and> providerCount t' p = providerCount t p"
    if found: "tryFindChild (t p) providerId = Some c" for c
  proof -
    have "filter (\<lambda>(cid, c). cid = providerId) (t p) \<noteq> []"
      using found by (simp add: no_provider_iff)
    then have "providerCount t p \<noteq> 0"
      by (simp add: providerCount_def)
    then have "providerCount t' p = providerCount t p"
      by (simp add: count)
    moreover have "tryFindChild (t' p) providerId = Some c"
      using found by (simp add: t'_def tryFindChild_createVersions)
    ultimately show ?thesis
      by simp
  qed
  have first: "providerCount t' p = 1"
    if "providerCount t p = 0" and "\<exists>call \<in> set calls. stackOf (fst call) = p"
  proof -
    from that(2) have "p \<in> (\<lambda>(this, fn, fnArn). stackOf this) ` set calls"
      by force
    with that(1) show ?thesis
      by (simp add: count)
  qed
  from bound reuse first show ?thesis
    by (simp add: Let_def flip: t'_def)
qed

theorem provider_unique_witness:
  "providerCount emptyTree [''Stack''] = 0
   \<and> providerCount
        (createVersions exampleAllocate ''dir''
           [(exampleEdgeFunction, ''payload A'', ''arn:1''),
            (otherEdgeFunction, ''payload B'', ''arn:2''),
            (otherEdgeFunction\<lparr> node_id := ''Third'' \<rparr>, ''payload C'', ''arn:3'')]
           emptyTree) [''Stack''] = 1"
  using provider_unique [where t = emptyTree and p = "[''Stack'']" and alloc = exampleAllocate
      and dirname = "''dir''" and calls =
      "[(exampleEdgeFunction, ''payload A'', ''arn:1''),
        (otherEdgeFunction, ''payload B'', ''arn:2''),
        (otherEdgeFunction\<lparr> node_id := ''Third'' \<rparr>, ''payload C'', ''arn:3'')]"]
  by (simp add: Let_def providerCount_def emptyTree_def exampleEdgeFunction_def
      otherEdgeFunction_def)

section \<open>Revalidation\<close>

text \<open>
  C6 (revalidation no-op). For a site with neither a regional nor an edge server function,
  \<open>createRevalidation\<close> returns the site as it is: no queue and no consumer is added to
  its children, and no function is changed.
\<close>

theorem createRevalidation_noop:
  assumes "serverLambdaForRegional s = None" and "serverLambdaForEdge s = None"
  shows "createRevalidation s = s
       \<and> siteChildren (createRevalidation s) = siteChildren s
       \<and> renderCompute (createRevalidation s) = None"
  using assms by (simp add: createRevalidation_def renderCompute_def)

theorem createRevalidation_noop_witness:
  "serverLambdaForRegional exampleSiteNoCompute = None
   \<and> serverLambdaForEdge exampleSiteNoCompute = None
   \<and> createRevalidation exampleSiteNoCompute = exampleSiteNoCompute"
  using createRevalidation_noop [of exampleSiteNoCompute]
  by (simp add: exampleSiteNoCompute_def exampleSite_def)

lemma renderCompute_createRevalidation:
  "renderCompute (createRevalidation s) =
     map_option (\<lambda>server. server
       \<lparr> sf_environment := (sf_environment server)
            (''REVALIDATION_QUEUE_URL'' \<mapsto> queueUrl ''RevalidationQueue'',
             ''REVALIDATION_QUEUE_REGION'' \<mapsto> region s),
         sf_role := sf_role server @ [GrantSendMessages ''RevalidationQueue''] \<rparr>)
       (renderCompute s)"
  by (simp add: createRevalidation_def renderCompute_def newChild_def Let_def
      addEnvironment_def grantSendMessages_def split: option.split)

lemma region_createRevalidation: "region (createRevalidation s) = region s"
  by (simp add: createRevalidation_def newChild_def Let_def split: option.split)

lemma region_runTask: "region (runTask task s) = region s"
  by (cases task) (simp_all add: region_createRevalidation updateImageFunctionCode_def)

lemma renderCompute_updateImageFunctionCode:
  "renderCompute (updateImageFunctionCode segments s) = renderCompute s"
  by (simp add: updateImageFunctionCode_def renderCompute_def split: option.split)

text \<open>Running deferred tasks leaves the environment of the render compute as it was, up
  to the two entries that \<open>createRevalidation\<close> sets.\<close>

lemma environment_runTask:
  assumes "renderCompute s = Some srv"
    and "sf_environment srv = e \<or> sf_environment srv =
           e(''REVALIDATION_QUEUE_URL'' \<mapsto> u, ''REVALIDATION_QUEUE_REGION'' \<mapsto> region s)"
    and "u = queueUrl ''RevalidationQueue''"
  shows "\<exists>srv'. renderCompute (runTask task s) = Some srv'
           \<and> (sf_environment srv' = e \<or> sf_environment srv' =
                e(''REVALIDATION_QUEUE_URL'' \<mapsto> u, ''REVALIDATION_QUEUE_REGION'' \<mapsto> region s))"
proof (cases task)
  case Task_createRevalidation
  with assms show ?thesis
    by (auto simp: renderCompute_createRevalidation)
next
  case (Task_updateImageFunctionCode segments)
  with assms show ?thesis
    by (simp add: renderCompute_updateImageFunctionCode)
qed

lemma environment_runTasks:
  assumes "renderCompute s = Some srv"
    and "sf_environment srv = e \<or> sf_environment srv =
           e(''REVALIDATION_QUEUE_URL'' \<mapsto> u, ''REVALIDATION_QUEUE_REGION'' \<mapsto> r)"
    and "u = queueUrl ''RevalidationQueue''" and "r = region s"
  shows "\<exists>srv'. renderCompute (foldl (\<lambda>s' task. runTask task s') s tasks) = Some srv'
           \<and> (sf_environment srv' = e \<or> sf_environment srv' =
                e(''REVALIDATION_QUEUE_URL'' \<mapsto> u, ''REVALIDATION_QUEUE_REGION'' \<mapsto> r))
           \<and> region (foldl (\<lambda>s' task. runTask task s') s tasks) = r"
  using assms
proof (induction tasks arbitrary: s srv)
  case Nil
  then show ?case by simp
next
  case (Cons task tasks)
  have start: "sf_environment srv = e \<or> sf_environment srv =
       e(''REVALIDATION_QUEUE_URL'' \<mapsto> u, ''REVALIDATION_QUEUE_REGION'' \<mapsto> region s)"
    using Cons.prems(2) unfolding Cons.prems(4) .
  from environment_runTask [OF Cons.prems(1) start Cons.prems(3), of task]
  obtain srv' where found: "renderCompute (runTask task s) = Some srv'"
    and env: "sf_environment srv' = e \<or> sf_environment srv' =
       e(''REVALIDATION_QUEUE_URL'' \<mapsto> u, ''REVALIDATION_QUEUE_REGION'' \<mapsto> region s)"
    by blast
  have env': "sf_environment srv' = e \<or> sf_environment srv' =
       e(''REVALIDATION_QUEUE_URL'' \<mapsto> u, ''REVALIDATION_QUEUE_REGION'' \<mapsto> r)"
    unfolding Cons.prems(4) by (rule env)
  have "r = region (runTask task s)"
    using Cons.prems(4) by (simp add: region_runTask)
  from Cons.IH [OF found env' Cons.prems(3) this] show ?case
    by simp
qed

lemma map_upd2_idem: "(m(a \<mapsto> x, b \<mapsto> y))(a \<mapsto> x, b \<mapsto> y) = m(a \<mapsto> x, b \<mapsto> y)"
  by (rule ext) simp

lemma runDeferredTasks_constructor:
  "runDeferredTasks (NextSite_constructor super buildCommand) =
     createRevalidation
       (foldl (\<lambda>s' task. runTask task s')
          (NextSite_constructor super buildCommand)
          (deferredTaskCallbacks (super (buildCommandOf buildCommand))))"
  by (simp add: runDeferredTasks_def NextSite_constructor_def Let_def)

lemma queue_createRevalidation:
  "renderCompute s \<noteq> None \<Longrightarrow>
   (''RevalidationQueue'', Queue \<lparr> fifo = True, receiveMessageWaitTime = 20 \<rparr>)
     \<in> set (siteChildren (createRevalidation s))"
  by (auto simp: createRevalidation_def renderCompute_def newChild_def Let_def
      split: option.splits)

text \<open>
  C7 (revalidation wiring). For a site with a render compute, \<open>createRevalidation\<close> adds to
  the site a FIFO queue (with a receive wait of 20 seconds) and the consumer function bound
  to it with batch size 5; the render compute is granted the sending of messages to the
  queue, and its environment is the old one with \<open>REVALIDATION_QUEUE_URL\<close> set to the
  queue's address and \<open>REVALIDATION_QUEUE_REGION\<close> to the stack's region, every other
  entry being as before. The constructor registers the call as the last deferred task of
  the site, the deferred tasks run before the site is finalized, and so the finalized
  descriptor has the queue and the render compute with this environment and grant.
\<close>

theorem createRevalidation_wires:
  assumes "renderCompute s = Some server"
  shows "let s' = createRevalidation s
         in siteChildren s' = siteChildren s @
              [(''RevalidationQueue'', Queue \<lparr> fifo = True, receiveMessageWaitTime = 20 \<rparr>),
               (''RevalidationFunction'', CdkFunction ((newCdkFunction (revalidationProps s))
                  \<lparr> eventSources := [\<lparr> queue = ''RevalidationQueue'', batchSize = 5 \<rparr>] \<rparr>))]
          \<and> renderCompute s' = Some (server
               \<lparr> sf_environment := (sf_environment server)
                    (''REVALIDATION_QUEUE_URL'' \<mapsto> queueUrl ''RevalidationQueue'',
                     ''REVALIDATION_QUEUE_REGION'' \<mapsto> region s),
                 sf_role := sf_role server @ [GrantSendMessages ''RevalidationQueue''] \<rparr>)
          \<and> (\<forall>server'. renderCompute s' = Some server' \<longrightarrow>
                (\<forall>k. k \<noteq> ''REVALIDATION_QUEUE_URL'' \<and> k \<noteq> ''REVALIDATION_QUEUE_REGION'' \<longrightarrow>
                   sf_environment server' k = sf_environment server k))
          \<and> (\<forall>super buildCommand. super (buildCommandOf buildCommand) = s \<longrightarrow>
                (let this = NextSite_constructor super buildCommand;
                     d = synthesize super buildCommand
                 in deferredTaskCallbacks this =
                      deferredTaskCallbacks s @ [Task_createRevalidation]
                  \<and> renderCompute this = Some server
                  \<and> map_option sf_environment (sd_renderCompute d) =
                      Some ((sf_environment server)
                        (''REVALIDATION_QUEUE_URL'' \<mapsto> queueUrl ''RevalidationQueue'',
                         ''REVALIDATION_QUEUE_REGION'' \<mapsto> region s))
                  \<and> (\<forall>server'. sd_renderCompute d = Some server' \<longrightarrow>
                        GrantSendMessages ''RevalidationQueue'' \<in> set (sf_role server'))
                  \<and> (''RevalidationQueue'',
                        Queue \<lparr> fifo = True, receiveMessageWaitTime = 20 \<rparr>)
                       \<in> set (sd_constructs d)))"
proof -
  have effect: "siteChildren (createRevalidation s) = siteChildren s @
              [(''RevalidationQueue'', Queue \<lparr> fifo = True, receiveMessageWaitTime = 20 \<rparr>),
               (''RevalidationFunction'', CdkFunction ((newCdkFunction (revalidationProps s))
                  \<lparr> eventSources := [\<lparr> queue = ''RevalidationQueue'', batchSize = 5 \<rparr>] \<rparr>))]"
    using assms
    by (auto simp: createRevalidation_def renderCompute_def newChild_def Let_def
        split: option.splits)
  have compute: "renderCompute (createRevalidation s) = Some (server
               \<lparr> sf_environment := (sf_environment server)
                    (''REVALIDATION_QUEUE_URL'' \<mapsto> queueUrl ''RevalidationQueue'',
                     ''REVALIDATION_QUEUE_REGION'' \<mapsto> region s),
                 sf_role := sf_role server @ [GrantSendMessages ''RevalidationQueue''] \<rparr>)"
    using assms by (simp add: renderCompute_createRevalidation)
  have frame: "sf_environment server' k = sf_environment server k"
    if "renderCompute (createRevalidation s) = Some server'"
      and "k \<noteq> ''REVALIDATION_QUEUE_URL'' \<and> k \<noteq> ''REVALIDATION_QUEUE_REGION''" for server' k
    using that compute by auto
  have life: "deferredTaskCallbacks (NextSite_constructor super buildCommand) =
                deferredTaskCallbacks s @ [Task_createRevalidation]
            \<and> renderCompute (NextSite_constructor super buildCommand) = Some server
            \<and> map_option sf_environment (sd_renderCompute (synthesize super buildCommand)) =
                Some ((sf_environment server)
                  (''REVALIDATION_QUEUE_URL'' \<mapsto> queueUrl ''RevalidationQueue'',
                   ''REVALIDATION_QUEUE_REGION'' \<mapsto> region s))
            \<and> (\<forall>server'. sd_renderCompute (synthesize super buildCommand) = Some server' \<longrightarrow>
                  GrantSendMessages ''RevalidationQueue'' \<in> set (sf_role server'))
            \<and> (''RevalidationQueue'', Queue \<lparr> fifo = True, receiveMessageWaitTime = 20 \<rparr>)
                 \<in> set (sd_constructs (synthesize super buildCommand))"
    if base: "super (buildCommandOf buildCommand) = s" for super buildCommand
  proof -
    define this where "this = NextSite_constructor super buildCommand"
    define mid where "mid = foldl (\<lambda>s' task. runTask task s') this (deferredTaskCallbacks s)"
    have tasks: "deferredTaskCallbacks this = deferredTaskCallbacks s @ [Task_createRevalidation]"
      by (simp add: this_def NextSite_constructor_def Let_def base)
    have rc: "renderCompute this = Some server"
      using assms
      by (simp add: this_def NextSite_constructor_def Let_def base renderCompute_def
          split: option.splits)
    have rg: "region s = region this"
      by (simp add: this_def NextSite_constructor_def Let_def base)
    from environment_runTasks [OF rc _ refl rg, of "sf_environment server" "deferredTaskCallbacks s"]
    obtain srv where mid: "renderCompute mid = Some srv"
      "sf_environment srv = sf_environment server \<or> sf_environment srv =
         (sf_environment server)
           (''REVALIDATION_QUEUE_URL'' \<mapsto> queueUrl ''RevalidationQueue'',
            ''REVALIDATION_QUEUE_REGION'' \<mapsto> region s)"
      "region mid = region s"
      by (auto simp: mid_def)
    have run: "runDeferredTasks this = createRevalidation mid"
      by (simp add: this_def mid_def runDeferredTasks_constructor base)
    have sdr: "sd_renderCompute (synthesize super buildCommand) =
        renderCompute (createRevalidation mid)"
      by (simp add: synthesize_def finalize_def run flip: this_def)
    have sdc: "sd_constructs (synthesize super buildCommand) =
        siteChildren (createRevalidation mid)"
      by (simp add: synthesize_def finalize_def run flip: this_def)
    have "map_option sf_environment (renderCompute (createRevalidation mid)) =
        Some ((sf_environment srv)
          (''REVALIDATION_QUEUE_URL'' \<mapsto> queueUrl ''RevalidationQueue'',
           ''REVALIDATION_QUEUE_REGION'' \<mapsto> region s))"
      by (simp add: renderCompute_createRevalidation mid(1,3))
    moreover have "(sf_environment srv)
          (''REVALIDATION_QUEUE_URL'' \<mapsto> queueUrl ''RevalidationQueue'',
           ''REVALIDATION_QUEUE_REGION'' \<mapsto> region s) =
        (sf_environment server)
          (''REVALIDATION_QUEUE_URL'' \<mapsto> queueUrl ''RevalidationQueue'',
           ''REVALIDATION_QUEUE_REGION'' \<mapsto> region s)"
    proof (rule disjE [OF mid(2)])
      assume same: "sf_environment srv = sf_environment server"
      show ?thesis unfolding same ..
    next
      assume wired: "sf_environment srv = (sf_environment server)
          (''REVALIDATION_QUEUE_URL'' \<mapsto> queueUrl ''RevalidationQueue'',
           ''REVALIDATION_QUEUE_REGION'' \<mapsto> region s)"
      show ?thesis unfolding wired by (rule map_upd2_idem)
    qed
    ultimately have env: "map_option sf_environment (renderCompute (createRevalidation mid)) =
        Some ((sf_environment server)
          (''REVALIDATION_QUEUE_URL'' \<mapsto> queueUrl ''RevalidationQueue'',
           ''REVALIDATION_QUEUE_REGION'' \<mapsto> region s))"
      by (rule trans [OF _ arg_cong [where f = Some]])
    have grant: "GrantSendMessages ''RevalidationQueue'' \<in> set (sf_role server')"
      if "renderCompute (createRevalidation mid) = Some server'" for server'
      using that by (auto simp: renderCompute_createRevalidation mid(1))
    have q: "(''RevalidationQueue'', Queue \<lparr> fifo = True, receiveMessageWaitTime = 20 \<rparr>)
        \<in> set (siteChildren (createRevalidation mid))"
      by (rule queue_createRevalidation) (simp add: mid(1))
    show ?thesis
      unfolding sdr sdc this_def [symmetric]
      apply (intro conjI)
          apply (rule tasks)
         apply (rule rc)
        apply (rule env)
       apply (blast intro: grant)
      apply (rule q)
      done
  qed
  show ?thesis
    unfolding Let_def
    apply (rule conjI, rule effect)
    apply (rule conjI, rule compute)
    apply (rule conjI)
     apply (blast intro: frame)
    apply (intro allI impI)
    apply (rule life)
    apply assumption
    done
qed

lemma exampleSuper_site:
  "renderCompute (exampleSuper c) = Some exampleServer
   \<and> region (exampleSuper c) = ''us-east-1''
   \<and> deferredTaskCallbacks (exampleSuper c) =
       [Task_updateImageFunctionCode [''web'', ''.open-next/image-optimization-function'']]"
  by (simp add: exampleSuper_def createCloudFrontDistributionForRegional_def
      buildImageBehavior_def createImageOptimizationFunction_def addFunctionUrl_def
      newChild_def exampleExternals_def exampleSite_def renderCompute_def Let_def)

theorem createRevalidation_wires_witness:
  "renderCompute exampleSite = Some exampleServer
   \<and> map fst (siteChildren (createRevalidation exampleSite)) =
       [''RevalidationQueue'', ''RevalidationFunction'']
   \<and> map_option sf_role (renderCompute (createRevalidation exampleSite)) =
       Some [GrantSendMessages ''RevalidationQueue'']
   \<and> map_option (\<lambda>f. map (sf_environment f)
        [''REVALIDATION_QUEUE_URL'', ''REVALIDATION_QUEUE_REGION'', ''CACHE_BUCKET_KEY_PREFIX''])
        (renderCompute (createRevalidation exampleSite)) =
       Some [Some (queueUrl ''RevalidationQueue''), Some ''us-east-1'', Some ''_cache'']
   \<and> renderCompute (exampleSuper (buildCommandOf None)) = Some exampleServer
   \<and> deferredTaskCallbacks (NextSite_constructor exampleSuper None) =
       [Task_updateImageFunctionCode [''web'', ''.open-next/image-optimization-function''],
        Task_createRevalidation]
   \<and> map_option (\<lambda>f. map (sf_environment f)
        [''REVALIDATION_QUEUE_URL'', ''REVALIDATION_QUEUE_REGION'', ''CACHE_BUCKET_KEY_PREFIX''])
        (sd_renderCompute (synthesize exampleSuper None)) =
       Some [Some (queueUrl ''RevalidationQueue''), Some ''us-east-1'', Some ''_cache'']"
proof -
  have h: "renderCompute exampleSite = Some exampleServer"
    by (simp add: renderCompute_def exampleSite_def)
  note inst = createRevalidation_wires [OF h, unfolded Let_def]
  note effect = inst [THEN conjunct1]
  note compute = inst [THEN conjunct2, THEN conjunct1]
  have children: "map fst (siteChildren (createRevalidation exampleSite)) =
       [''RevalidationQueue'', ''RevalidationFunction'']"
    unfolding effect by (simp add: exampleSite_def)
  have role: "map_option sf_role (renderCompute (createRevalidation exampleSite)) =
       Some [GrantSendMessages ''RevalidationQueue'']"
    unfolding compute by (simp add: exampleServer_def)
  have env: "map_option (\<lambda>f. map (sf_environment f)
        [''REVALIDATION_QUEUE_URL'', ''REVALIDATION_QUEUE_REGION'', ''CACHE_BUCKET_KEY_PREFIX''])
        (renderCompute (createRevalidation exampleSite)) =
       Some [Some (queueUrl ''RevalidationQueue''), Some ''us-east-1'', Some ''_cache'']"
    unfolding compute by (simp add: exampleServer_def exampleSite_def)
  have h': "renderCompute (exampleSuper (buildCommandOf None)) = Some exampleServer"
    by (simp add: exampleSuper_site)
  note life = createRevalidation_wires [OF h', unfolded Let_def, THEN conjunct2,
      THEN conjunct2, THEN conjunct2, rule_format, of exampleSuper None, OF refl]
  note registered = life [THEN conjunct1]
  note finalized = life [THEN conjunct2, THEN conjunct2, THEN conjunct1]
  have tasks: "deferredTaskCallbacks (NextSite_constructor exampleSuper None) =
       [Task_updateImageFunctionCode [''web'', ''.open-next/image-optimization-function''],
        Task_createRevalidation]"
    unfolding registered by (simp add: exampleSuper_site)
  obtain server' where found: "sd_renderCompute (synthesize exampleSuper None) = Some server'"
    and env': "sf_environment server' = (sf_environment exampleServer)
           (''REVALIDATION_QUEUE_URL'' \<mapsto> queueUrl ''RevalidationQueue'',
            ''REVALIDATION_QUEUE_REGION'' \<mapsto> region (exampleSuper (buildCommandOf None)))"
    using finalized by (cases "sd_renderCompute (synthesize exampleSuper None)") simp_all
  have final: "map_option (\<lambda>f. map (sf_environment f)
        [''REVALIDATION_QUEUE_URL'', ''REVALIDATION_QUEUE_REGION'', ''CACHE_BUCKET_KEY_PREFIX''])
        (sd_renderCompute (synthesize exampleSuper None)) =
       Some [Some (queueUrl ''RevalidationQueue''), Some ''us-east-1'', Some ''_cache'']"
    unfolding found by (simp add: env' exampleServer_def exampleSuper_site)
  from h children role env h' tasks final show ?thesis
    by (intro conjI)
qed

section \<open>The route table\<close>

lemma routeTable_Regional:
  "routeTable ext Regional s =
     \<lparr> customDomain = props_customDomain s,
       defaultRootObject =
         (case cf_defaultRootObject (cfDistributionProps s) of None \<Rightarrow> [] | Some r \<Rightarrow> r),
       otherProps = cf_otherProps (cfDistributionProps s),
       defaultBehavior = serverBehaviorOf ext Regional s,
       additionalBehaviors =
         [''api/*'' \<mapsto> serverBehaviorOf ext Regional s,
          ''_next/data/*'' \<mapsto> serverBehaviorOf ext Regional s,
          ''_next/image*'' \<mapsto>
             fst (buildImageBehavior ext (snd (buildDefaultBehaviorForRegional ext s)))]
         ++ callerBehaviors s \<rparr>"
  by (simp add: routeTable_def createCloudFrontDistributionForRegional_def serverBehaviorOf_def
      Let_def split: prod.split)

lemma routeTable_Edge:
  "routeTable ext EdgeReplicated s =
     \<lparr> customDomain = props_customDomain s,
       defaultRootObject =
         (case cf_defaultRootObject (cfDistributionProps s) of None \<Rightarrow> [] | Some r \<Rightarrow> r),
       otherProps = cf_otherProps (cfDistributionProps s),
       defaultBehavior = serverBehaviorOf ext EdgeReplicated s,
       additionalBehaviors =
         [''api/*'' \<mapsto> serverBehaviorOf ext EdgeReplicated s,
          ''_next/data/*'' \<mapsto> serverBehaviorOf ext EdgeReplicated s]
         ++ callerBehaviors s \<rparr>"
  by (simp add: routeTable_def createCloudFrontDistributionForEdge_def serverBehaviorOf_def
      Let_def split: prod.split)

lemma origin_buildImageBehavior:
  "origin (fst (buildImageBehavior ext s)) =
     HttpOrigin (parseDomainName (functionUrl_url ''ImageFunction''))"
  by (simp add: buildImageBehavior_def Let_def split: prod.split)

lemma exampleCallerBehaviors:
  "callerBehaviors (exampleSiteOverriding k) = [k \<mapsto> exampleCallerBehavior]"
  by (simp add: callerBehaviors_def cfDistributionProps_def exampleSiteOverriding_def
      exampleOverrides_def)

lemma exampleCallerBehaviors_none: "callerBehaviors exampleSite = Map.empty"
  by (simp add: callerBehaviors_def cfDistributionProps_def exampleSite_def)

text \<open>
  C4 (topology exclusivity of the image behavior), as the source has it. The caller's
  additional behaviors are merged last in both topologies, so without a caller's entry for
  \<open>_next/image*\<close> the edge-replicated route table has no such behavior and the regional
  one routes it to the image behavior, whose origin is the URL of the image function; in
  the edge-replicated topology the key is in the table exactly when the caller supplies it.
\<close>

theorem image_behavior_by_topology:
  assumes "callerBehaviors s ''_next/image*'' = None"
  shows "additionalBehaviors (routeTable ext EdgeReplicated s) ''_next/image*'' = None
       \<and> additionalBehaviors (routeTable ext Regional s) ''_next/image*'' =
           Some (fst (buildImageBehavior ext (snd (buildDefaultBehaviorForRegional ext s))))
       \<and> origin (fst (buildImageBehavior ext (snd (buildDefaultBehaviorForRegional ext s)))) =
           HttpOrigin (parseDomainName (functionUrl_url ''ImageFunction''))
       \<and> (\<forall>s'. additionalBehaviors (routeTable ext EdgeReplicated s') ''_next/image*'' =
             callerBehaviors s' ''_next/image*'')"
  using assms
  by (simp add: routeTable_Regional routeTable_Edge origin_buildImageBehavior map_add_def
      split: option.split)

theorem image_behavior_by_topology_witness:
  "callerBehaviors exampleSite ''_next/image*'' = None
   \<and> additionalBehaviors (routeTable exampleExternals EdgeReplicated exampleSite) ''_next/image*''
       = None
   \<and> map_option origin
       (additionalBehaviors (routeTable exampleExternals Regional exampleSite) ''_next/image*'')
       = Some (HttpOrigin (parseDomainName (functionUrl_url ''ImageFunction'')))"
proof -
  have h: "callerBehaviors exampleSite ''_next/image*'' = None"
    by (simp add: exampleCallerBehaviors_none)
  show ?thesis
    using h image_behavior_by_topology [OF h, of exampleExternals]
    by simp
qed

text \<open>The claim as stated fails for the edge-replicated topology: a caller's entry for
  \<open>_next/image*\<close> is in the route table.\<close>

theorem edge_image_behavior_counterexample:
  "additionalBehaviors
     (routeTable exampleExternals EdgeReplicated (exampleSiteOverriding ''_next/image*''))
     ''_next/image*'' = Some exampleCallerBehavior"
  by (simp add: routeTable_Edge exampleCallerBehaviors)

lemma serverBehaviorOf_specExternals:
  "serverBehaviorOf (specExternals base tm) topo s =
     overrideNonEssential (cf_defaultBehavior (cfDistributionProps s))
       (base topo (withoutDistributionProps s))"
  by (cases topo) (simp_all add: serverBehaviorOf_def specExternals_def)

lemma snd_buildDefaultBehaviorForRegional_specExternals:
  "snd (buildDefaultBehaviorForRegional (specExternals base tm) s) = s"
  by (simp add: specExternals_def)

lemma origin_overrideNonEssential: "origin (overrideNonEssential over b) = origin b"
  by (simp add: overrideNonEssential_def split: option.split)

lemma edgeLambdas_overrideNonEssential:
  "edgeLambdas (overrideNonEssential over b) = edgeLambdas b"
  by (simp add: overrideNonEssential_def split: option.split)

lemma cfDistributionProps_withAdditionalBehaviors:
  "cfDistributionProps (withAdditionalBehaviors m s) =
     (cfDistributionProps s)\<lparr> cf_additionalBehaviors := m \<rparr>"
  by (simp add: withAdditionalBehaviors_def cfDistributionProps_def)

lemma callerBehaviors_withAdditionalBehaviors_None:
  "callerBehaviors (withAdditionalBehaviors None s) = Map.empty"
  by (simp add: callerBehaviors_def cfDistributionProps_withAdditionalBehaviors)

lemma withoutDistributionProps_withAdditionalBehaviors:
  "withoutDistributionProps (withAdditionalBehaviors m s) = withoutDistributionProps s"
  by (simp add: withoutDistributionProps_def withAdditionalBehaviors_def)

lemma withoutDistributionProps_idem:
  "withoutDistributionProps (withoutDistributionProps s) = withoutDistributionProps s"
  by (simp add: withoutDistributionProps_def)

lemma cfDistributionProps_withoutDistributionProps:
  "cf_defaultBehavior (cfDistributionProps (withoutDistributionProps s)) = None"
  by (simp add: withoutDistributionProps_def cfDistributionProps_def)

lemma serverBehaviorOf_withAdditionalBehaviors:
  "serverBehaviorOf (specExternals base tm) topo (withAdditionalBehaviors m s) =
     serverBehaviorOf (specExternals base tm) topo s"
  by (simp add: serverBehaviorOf_specExternals cfDistributionProps_withAdditionalBehaviors
      withoutDistributionProps_withAdditionalBehaviors)

lemma serverBehaviorOf_withoutDistributionProps:
  "serverBehaviorOf (specExternals base tm) topo (withoutDistributionProps s) =
     base topo (withoutDistributionProps s)"
  by (simp add: serverBehaviorOf_specExternals cfDistributionProps_withoutDistributionProps
      withoutDistributionProps_idem overrideNonEssential_def)

lemma fst_buildImageBehavior:
  "fst (buildImageBehavior ext s) =
     \<lparr> viewerProtocolPolicy = REDIRECT_TO_HTTPS,
       origin = HttpOrigin (parseDomainName (functionUrl_url ''ImageFunction'')),
       allowedMethods = ALLOW_ALL,
       cachedMethods = CACHE_GET_HEAD_OPTIONS,
       compress = True,
       cachePolicy = (case props_cdk_serverCachePolicy s of
                        Some p \<Rightarrow> p | None \<Rightarrow> useServerBehaviorCachePolicy),
       responseHeadersPolicy = props_cdk_responseHeadersPolicy s,
       edgeLambdas =
         (if props_regional_enableServerUrlIamAuth s = Some True
          then [\<lparr> includeBody = True, eventType = ORIGIN_REQUEST,
                  functionVersion = sg_currentVersion (serverUrlSigningFunction s) \<rparr>]
          else []) \<rparr>"
  by (simp add: buildImageBehavior_def createImageOptimizationFunction_def addFunctionUrl_def
      newChild_def Let_def split: prod.split)

lemma fst_buildImageBehavior_withAdditionalBehaviors:
  "fst (buildImageBehavior ext (withAdditionalBehaviors m s)) = fst (buildImageBehavior ext s)"
  by (simp add: fst_buildImageBehavior withAdditionalBehaviors_def)

lemma defaultBehavior_routeTable: "defaultBehavior (routeTable ext topo s) = serverBehaviorOf ext topo s"
  by (cases topo) (simp_all add: routeTable_Regional routeTable_Edge)

lemma additionalBehaviors_routeTable_override:
  "callerBehaviors s k = Some b \<Longrightarrow> additionalBehaviors (routeTable ext topo s) k = Some b"
  by (cases topo) (simp_all add: routeTable_Regional routeTable_Edge map_add_def)

lemma additionalBehaviors_routeTable_spec:
  "callerBehaviors s k = None \<Longrightarrow>
   additionalBehaviors (routeTable (specExternals base tm) topo s) k =
   additionalBehaviors (routeTable (specExternals base tm) topo (withAdditionalBehaviors None s)) k"
  by (cases topo)
    (simp_all add: routeTable_Regional routeTable_Edge map_add_def
      serverBehaviorOf_withAdditionalBehaviors callerBehaviors_withAdditionalBehaviors_None
      snd_buildDefaultBehaviorForRegional_specExternals
      fst_buildImageBehavior_withAdditionalBehaviors)

lemma additionalBehaviors_routeTable_fixed:
  "callerBehaviors s k = None \<Longrightarrow> k = ''api/*'' \<or> k = ''_next/data/*'' \<Longrightarrow>
   additionalBehaviors (routeTable ext topo s) k = Some (serverBehaviorOf ext topo s)"
  by (cases topo) (auto simp: routeTable_Regional routeTable_Edge map_add_def)

text \<open>
  C5 (override precedence). With the server behavior of the base class as the spec has it,
  in both topologies: every entry of the caller's additional behaviors is the entry of the
  route table under its key; the default behavior is the one of the same site without
  additional behaviors from the caller, and its origin and edge handlers are those of the
  site without any distribution properties from the caller; a key that the caller does not
  override is routed as without additional behaviors, \<open>api/*\<close> and \<open>_next/data/*\<close> to the
  default behavior. In particular, overriding \<open>api/*\<close> alone leaves the routing of
  \<open>_next/data/*\<close> and the default behavior as they are without the override.
\<close>

theorem override_precedence:
  "let ext = specExternals base tm;
       d = routeTable ext topo s;
       d0 = routeTable ext topo (withAdditionalBehaviors None s);
       dn = routeTable ext topo (withoutDistributionProps s)
   in (\<forall>k b. callerBehaviors s k = Some b \<longrightarrow> additionalBehaviors d k = Some b)
    \<and> defaultBehavior d = defaultBehavior d0
    \<and> origin (defaultBehavior d) = origin (defaultBehavior dn)
    \<and> edgeLambdas (defaultBehavior d) = edgeLambdas (defaultBehavior dn)
    \<and> origin (defaultBehavior d) = origin (base topo (withoutDistributionProps s))
    \<and> (\<forall>k. callerBehaviors s k = None \<longrightarrow> additionalBehaviors d k = additionalBehaviors d0 k)
    \<and> (\<forall>k \<in> {''api/*'', ''_next/data/*''}.
          callerBehaviors s k = None \<longrightarrow> additionalBehaviors d k = Some (defaultBehavior d0))
    \<and> (\<forall>b. callerBehaviors s = [''api/*'' \<mapsto> b] \<longrightarrow>
          additionalBehaviors d ''api/*'' = Some b
        \<and> additionalBehaviors d ''_next/data/*'' = additionalBehaviors d0 ''_next/data/*''
        \<and> additionalBehaviors d ''_next/data/*'' = Some (defaultBehavior d0)
        \<and> defaultBehavior d = defaultBehavior d0)"
proof -
  define ext where "ext = specExternals base tm"
  define d where "d = routeTable ext topo s"
  define d0 where "d0 = routeTable ext topo (withAdditionalBehaviors None s)"
  define dn where "dn = routeTable ext topo (withoutDistributionProps s)"
  have prec: "additionalBehaviors d k = Some b" if "callerBehaviors s k = Some b" for k b
    using that by (simp add: d_def additionalBehaviors_routeTable_override)
  have dflt: "defaultBehavior d = defaultBehavior d0"
    by (simp add: d_def d0_def ext_def defaultBehavior_routeTable
        serverBehaviorOf_withAdditionalBehaviors)
  have orig: "origin (defaultBehavior d) = origin (base topo (withoutDistributionProps s))"
    by (simp add: d_def ext_def defaultBehavior_routeTable serverBehaviorOf_specExternals
        origin_overrideNonEssential)
  have orign: "origin (defaultBehavior d) = origin (defaultBehavior dn)"
    by (simp add: orig dn_def ext_def defaultBehavior_routeTable
        serverBehaviorOf_withoutDistributionProps)
  have handler: "edgeLambdas (defaultBehavior d) = edgeLambdas (defaultBehavior dn)"
    by (simp add: d_def dn_def ext_def defaultBehavior_routeTable
        serverBehaviorOf_specExternals edgeLambdas_overrideNonEssential
        withoutDistributionProps_idem)
  have same: "additionalBehaviors d k = additionalBehaviors d0 k"
    if "callerBehaviors s k = None" for k
    using that by (simp add: d_def d0_def ext_def additionalBehaviors_routeTable_spec)
  have fixed: "additionalBehaviors d k = Some (defaultBehavior d0)"
    if "callerBehaviors s k = None" and "k = ''api/*'' \<or> k = ''_next/data/*''" for k
    using that additionalBehaviors_routeTable_fixed [of s k ext topo]
    by (simp add: d_def defaultBehavior_routeTable flip: dflt)
  have api: "additionalBehaviors d ''api/*'' = Some b
        \<and> additionalBehaviors d ''_next/data/*'' = additionalBehaviors d0 ''_next/data/*''
        \<and> additionalBehaviors d ''_next/data/*'' = Some (defaultBehavior d0)
        \<and> defaultBehavior d = defaultBehavior d0"
    if "callerBehaviors s = [''api/*'' \<mapsto> b]" for b
  proof -
    from that have "callerBehaviors s ''api/*'' = Some b"
      and "callerBehaviors s ''_next/data/*'' = None"
      by simp_all
    then show ?thesis
      using prec same fixed dflt by simp
  qed
  from prec dflt orig orign handler same fixed api show ?thesis
    unfolding Let_def ext_def [symmetric] d_def [symmetric] d0_def [symmetric]
      dn_def [symmetric]
    by blast
qed

theorem override_precedence_witness:
  "callerBehaviors (exampleSiteOverriding ''api/*'') = [''api/*'' \<mapsto> exampleCallerBehavior]
   \<and> additionalBehaviors (routeTable (specExternals exampleBase (\<lambda>m. 1024)) Regional
        (exampleSiteOverriding ''api/*'')) ''api/*'' = Some exampleCallerBehavior
   \<and> additionalBehaviors (routeTable (specExternals exampleBase (\<lambda>m. 1024)) Regional
        (exampleSiteOverriding ''api/*'')) ''_next/data/*''
      = Some (defaultBehavior (routeTable (specExternals exampleBase (\<lambda>m. 1024)) Regional
          (withAdditionalBehaviors None (exampleSiteOverriding ''api/*''))))
   \<and> origin (defaultBehavior (routeTable (specExternals exampleBase (\<lambda>m. 1024)) Regional
        (exampleSiteOverriding ''api/*''))) = OtherOrigin ''server''"
proof -
  have cb: "callerBehaviors (exampleSiteOverriding ''api/*'') =
      [''api/*'' \<mapsto> exampleCallerBehavior]"
    by (simp add: exampleCallerBehaviors)
  note inst = override_precedence [of exampleBase "\<lambda>m. 1024" Regional
      "exampleSiteOverriding ''api/*''", unfolded Let_def]
  have routes: "additionalBehaviors (routeTable (specExternals exampleBase (\<lambda>m. 1024)) Regional
        (exampleSiteOverriding ''api/*'')) ''api/*'' = Some exampleCallerBehavior
   \<and> additionalBehaviors (routeTable (specExternals exampleBase (\<lambda>m. 1024)) Regional
        (exampleSiteOverriding ''api/*'')) ''_next/data/*''
      = Some (defaultBehavior (routeTable (specExternals exampleBase (\<lambda>m. 1024)) Regional
          (withAdditionalBehaviors None (exampleSiteOverriding ''api/*''))))"
    using inst cb by blast
  have "origin (defaultBehavior (routeTable (specExternals exampleBase (\<lambda>m. 1024)) Regional
        (exampleSiteOverriding ''api/*''))) =
      origin (exampleBase Regional (withoutDistributionProps (exampleSiteOverriding ''api/*'')))"
    using inst by blast
  then have "origin (defaultBehavior (routeTable (specExternals exampleBase (\<lambda>m. 1024)) Regional
        (exampleSiteOverriding ''api/*''))) = OtherOrigin ''server''"
    by (simp add: exampleBase_def exampleServerBehavior_def)
  with cb routes show ?thesis
    by simp
qed

text \<open>
  C8 (cache-key allow-list). The server cache policy puts exactly five request headers into
  the cache key: \<open>accept\<close>, \<open>rsc\<close>, \<open>next-router-prefetch\<close>, \<open>next-router-state-tree\<close> and
  \<open>next-url\<close>, each once.
\<close>

theorem cache_key_allow_list:
  "set (cacheKeyHeaders useServerBehaviorCachePolicy) =
     {''accept'', ''rsc'', ''next-router-prefetch'', ''next-router-state-tree'', ''next-url''}
   \<and> distinct (cacheKeyHeaders useServerBehaviorCachePolicy)
   \<and> length (cacheKeyHeaders useServerBehaviorCachePolicy) = 5"
  by (simp add: useServerBehaviorCachePolicy_def super_useServerBehaviorCachePolicy_def)

section \<open>Access of the image function to the bucket\<close>

lemma glob_star_cons: "glob ps s \<Longrightarrow> glob (CHR ''*'' # ps) s"
  by (cases s) simp_all

lemma glob_refl: "glob p p"
  by (induction p) (simp_all add: glob_star_cons)

lemma glob_append: "glob p s \<Longrightarrow> glob q t \<Longrightarrow> glob (p @ q) (s @ t)"
proof (induction p s arbitrary: q t rule: glob.induct)
  case 1
  then show ?case by simp
next
  case (2 c s)
  then show ?case by simp
next
  case (3 p ps)
  then have star: "p = CHR ''*''" and rest: "glob (ps @ q) t"
    by auto
  from rest show ?case
    unfolding star by (simp add: glob_star_cons)
next
  case (4 p ps c s)
  then show ?case
    by (auto split: if_splits)
qed

lemma glob_star: "glob ''*'' s"
  by (induction s) simp_all

lemma glob_literal:
  "CHR ''*'' \<notin> set p \<Longrightarrow> CHR ''?'' \<notin> set p \<Longrightarrow> glob p s \<longleftrightarrow> s = p"
  by (induction p s rule: glob.induct) auto

lemma glob_bucket_objects: "glob (arnForObjects s ''*'') (objectArn s key)"
proof -
  have "glob (''/'' @ ''*'') (''/'' @ key)"
    by (rule glob_append) (simp_all add: glob_star)
  with glob_refl [of "bucketArn s"] have "glob (bucketArn s @ ''/'' @ ''*'') (bucketArn s @ ''/'' @ key)"
    by (rule glob_append)
  then show ?thesis
    by (simp add: arnForObjects_def objectArn_def)
qed

lemma initialPolicy_imageFunction:
  "initialPolicy (fst (createImageOptimizationFunction ext s)) =
     [\<lparr> effect = ALLOW, actions = [''s3:GetObject''], resources = [arnForObjects s ''*''] \<rparr>]"
  by (simp add: createImageOptimizationFunction_def imageFunctionProps_def newCdkFunction_def
      PolicyStatement_def Let_def function_props.defs)

lemma environment_imageFunction:
  "environment (fst (createImageOptimizationFunction ext s)) =
     [''BUCKET_NAME'' \<mapsto> bucketName s, ''BUCKET_KEY_PREFIX'' \<mapsto> ''_assets'']"
  by (simp add: createImageOptimizationFunction_def imageFunctionProps_def newCdkFunction_def
      Let_def function_props.defs)

lemma allows_imageFunction:
  "allows (initialPolicy (fst (createImageOptimizationFunction ext s))) a r \<longleftrightarrow>
     a = ''s3:GetObject'' \<and> glob (arnForObjects s ''*'') r"
proof -
  have "glob ''s3:GetObject'' a \<longleftrightarrow> a = ''s3:GetObject''"
    by (rule glob_literal) simp_all
  then show ?thesis
    by (simp add: initialPolicy_imageFunction allows_def matches_def)
qed

text \<open>
  C9 (storage access of the image function), as the source has it. The policy of the image
  function allows \<open>s3:GetObject\<close> and no other action, on every object of the bucket,
  whatever its key, and on nothing that is not an object of the bucket; the prefix
  \<open>_assets\<close> is given to the function as the environment value \<open>BUCKET_KEY_PREFIX\<close> only.
\<close>

theorem image_function_access:
  "let fn = fst (createImageOptimizationFunction ext s)
   in (\<forall>key. allows (initialPolicy fn) ''s3:GetObject'' (objectArn s key))
    \<and> (\<forall>a r. allows (initialPolicy fn) a r \<longrightarrow>
          a = ''s3:GetObject'' \<and> glob (bucketArn s @ ''/*'') r)
    \<and> environment fn ''BUCKET_KEY_PREFIX'' = Some ''_assets''"
proof -
  have pat: "arnForObjects s ''*'' = bucketArn s @ ''/*''"
    by (simp add: arnForObjects_def)
  have "glob (bucketArn s @ ''/*'') (objectArn s key)" for key
    using glob_bucket_objects [of s key] by (simp only: pat)
  then show ?thesis
    by (simp add: Let_def allows_imageFunction environment_imageFunction pat)
qed

theorem image_function_access_witness:
  "allows (initialPolicy (fst (createImageOptimizationFunction exampleExternals exampleSite)))
     ''s3:GetObject'' (objectArn exampleSite ''_assets/logo.png'')
   \<and> \<not> allows (initialPolicy (fst (createImageOptimizationFunction exampleExternals exampleSite)))
     ''s3:PutObject'' (objectArn exampleSite ''_assets/logo.png'')"
  using image_function_access [of exampleExternals exampleSite]
  by (auto simp: Let_def)

text \<open>The claim as stated fails: the policy allows reading an object whose key is outside
  the prefix \<open>_assets\<close>.\<close>

theorem image_function_prefix_counterexample:
  "allows (initialPolicy (fst (createImageOptimizationFunction exampleExternals exampleSite)))
     ''s3:GetObject'' (objectArn exampleSite ''_cache/index.html'')
   \<and> \<not> prefix ''_assets'' ''_cache/index.html''"
  by (simp add: allows_imageFunction glob_bucket_objects)

end
